theory Spec2Isabelle
  imports Complex_Main
begin

section \<open>Error taxonomy (exceptions.py)\<close>

text \<open>
  The exception classes of \<^verbatim>\<open>exceptions.py\<close>. Every class derives from
  \<^verbatim>\<open>LeapOCRClientError\<close>; the class of a raised error is its \<open>kind\<close>.
\<close>

datatype error_kind =
    ClientError
  | ServerError
  | AuthenticationError
  | ValidationError
  | RateLimitError
  | TimeoutError
  | NotFoundError
  | UploadError
  | JobError
  | ConfigurationError

text \<open>
  An instance of one of these classes: the fields set by
  \<^verbatim>\<open>LeapOCRClientError.__init__\<close> and by \<^verbatim>\<open>LeapOCRTimeoutError.__init__\<close>.
\<close>

record leapocr_error =
  kind :: error_kind
  message :: string
  err_status_code :: "int option"
  timeout_seconds :: "real option"

definition mk_error :: "error_kind \<Rightarrow> string \<Rightarrow> int option \<Rightarrow> leapocr_error" where
  "mk_error k m c = \<lparr>kind = k, message = m, err_status_code = c, timeout_seconds = None\<rparr>"

text \<open>\<^verbatim>\<open>is_retryable\<close>, one equation per class, in the order of the file.\<close>

fun is_retryable :: "error_kind \<Rightarrow> bool" where
  "is_retryable ClientError = False"
| "is_retryable ServerError = True"
| "is_retryable AuthenticationError = False"
| "is_retryable ValidationError = False"
| "is_retryable RateLimitError = True"
| "is_retryable TimeoutError = True"
| "is_retryable NotFoundError = False"
| "is_retryable UploadError = True"
| "is_retryable JobError = False"
| "is_retryable ConfigurationError = False"

text \<open>
  The exception of the generated transport (\<^verbatim>\<open>ApiException\<close>): what the client reads
  from it. \<open>exc_status\<close> is \<^verbatim>\<open>getattr(error, "status", None)\<close>, \<open>exc_body\<close> is the
  body as it is printed inside an f-string, \<open>exc_text\<close> is \<^verbatim>\<open>str(error)\<close>.
\<close>

record api_exception =
  exc_status :: "int option"
  exc_body :: string
  exc_text :: string

text \<open>
  \<^verbatim>\<open>LeapOCRClient._handle_api_error\<close>: it never returns, the value is the error it
  raises. The last test before the default is \<^verbatim>\<open>status_code and 500 <= status_code < 600\<close>.
\<close>

definition handle_api_error :: "api_exception \<Rightarrow> leapocr_error" where
  "handle_api_error error =
    (let status_code = exc_status error in
     if status_code = Some 401 then
       mk_error AuthenticationError ''Invalid API key or authentication failed'' None
     else if status_code = Some 403 then
       mk_error AuthenticationError ''Access forbidden - check API key permissions'' None
     else if status_code = Some 404 then
       mk_error NotFoundError ''Resource not found'' None
     else if status_code = Some 422 then
       mk_error ValidationError (''Validation error: '' @ exc_body error) None
     else if status_code = Some 429 then
       mk_error RateLimitError ''Rate limit exceeded'' None
     else if (case status_code of None \<Rightarrow> False
              | Some c \<Rightarrow> c \<noteq> 0 \<and> 500 \<le> c \<and> c < 600) then
       mk_error ServerError (''Server error: '' @ exc_body error) None
     else
       mk_error ClientError (''API error: '' @ exc_text error) None)"

text \<open>
  \<^verbatim>\<open>LeapOCRExceptionMapper.map_exception\<close>: the chain is entered only when the status
  code is truthy (present and not zero); whatever falls through is the generic error.
\<close>

definition map_exception :: "api_exception \<Rightarrow> leapocr_error" where
  "map_exception error =
    (case exc_status error of
       None \<Rightarrow> mk_error ClientError (exc_text error) None
     | Some status_code \<Rightarrow>
        if status_code \<noteq> 0 then
          (if status_code = 401 then
             mk_error AuthenticationError ''Invalid API key or authentication failed''
               (Some status_code)
           else if status_code = 403 then
             mk_error AuthenticationError ''Access forbidden - check API key permissions''
               (Some status_code)
           else if status_code = 404 then
             mk_error NotFoundError ''Resource not found'' (Some status_code)
           else if status_code = 422 then
             mk_error ValidationError (''Validation error: '' @ exc_body error)
               (Some status_code)
           else if status_code = 429 then
             mk_error RateLimitError ''Rate limit exceeded'' (Some status_code)
           else if 500 \<le> status_code \<and> status_code < 600 then
             mk_error ServerError (''Server error: '' @ exc_body error) (Some status_code)
           else mk_error ClientError (exc_text error) None)
        else mk_error ClientError (exc_text error) None)"

section \<open>Types (types.py)\<close>

text \<open>
  \<^verbatim>\<open>class JobStatus(str, Enum)\<close>: five members, each with its string value.
  \<^verbatim>\<open>JobStatus(v)\<close> looks a member up by value and raises ValueError when there is
  none: \<open>None\<close> below.
\<close>

datatype JobStatus = PENDING | PROCESSING | COMPLETED | FAILED | CANCELLED

fun JobStatus_value :: "JobStatus \<Rightarrow> string" where
  "JobStatus_value PENDING = ''pending''"
| "JobStatus_value PROCESSING = ''processing''"
| "JobStatus_value COMPLETED = ''completed''"
| "JobStatus_value FAILED = ''failed''"
| "JobStatus_value CANCELLED = ''cancelled''"

definition JobStatus_lookup :: "string \<Rightarrow> JobStatus option" where
  "JobStatus_lookup v =
    (if v = ''pending'' then Some PENDING
     else if v = ''processing'' then Some PROCESSING
     else if v = ''completed'' then Some COMPLETED
     else if v = ''failed'' then Some FAILED
     else if v = ''cancelled'' then Some CANCELLED
     else None)"

text \<open>
  \<^verbatim>\<open>str.lower\<close> on the letters A to Z (codes 65 to 90; the lower-case letter is
  32 higher, that is, the same byte with bit 5 set). A string is a list of bytes here; no character
  outside ASCII lower-cases to a letter of the five status names, so the lookup below is
  decided by the ASCII letters alone.
\<close>

definition lower_char :: "char \<Rightarrow> char" where
  "lower_char c =
    (let n = (of_char c :: nat) in
     if 65 \<le> n \<and> n \<le> 90 then
       (case c of Char b0 b1 b2 b3 b4 b5 b6 b7 \<Rightarrow> Char b0 b1 b2 b3 b4 True b6 b7)
     else c)"

definition lower :: "string \<Rightarrow> string" where
  "lower s = map lower_char s"

text \<open>
  A field annotated \<^verbatim>\<open>JobStatus | str\<close>: a member of the enumeration or a plain
  string. Both are Python strings; \<open>status_str\<close> is the string the value compares as.
\<close>

datatype status_val = Enum JobStatus | Str string

fun status_str :: "status_val \<Rightarrow> string" where
  "status_str (Enum e) = JobStatus_value e"
| "status_str (Str s) = s"

text \<open>
  \<^verbatim>\<open>__post_init__\<close> of Job, JobStatusInfo and JobResult (the same body in each):
  a member of the str-derived enumeration passes the \<^verbatim>\<open>isinstance(.., str)\<close> test
  too; \<^verbatim>\<open>JobStatus(self.status.lower())\<close> replaces the field when the lookup succeeds,
  and the ValueError of a failed lookup is swallowed, leaving the field as it was.
\<close>

definition post_init :: "status_val \<Rightarrow> status_val" where
  "post_init st =
    (case JobStatus_lookup (lower (status_str st)) of
       Some e \<Rightarrow> Enum e
     | None \<Rightarrow> st)"

type_synonym datetime = string

text \<open>The values of a \<^verbatim>\<open>dict[str, Any]\<close> payload.\<close>

datatype pyval =
    PNone
  | PBool bool
  | PInt int
  | PFloat real
  | PStr string
  | PList "pyval list"
  | PDict "(string \<times> pyval) list"

type_synonym pydict = "(string \<times> pyval) list"

record Job =
  j_id :: string
  j_status :: status_val
  j_created_at :: "datetime option"

record JobStatusInfo =
  jsi_job_id :: string
  jsi_status :: status_val
  jsi_progress :: "real option"
  jsi_error_message :: "string option"
  jsi_created_at :: "datetime option"
  jsi_updated_at :: "datetime option"

record JobResult =
  jr_job_id :: string
  jr_status :: status_val
  jr_data :: "pydict option"
  jr_pages :: "pydict list option"
  jr_credits_used :: "int option"
  jr_processing_time :: "real option"
  jr_error_message :: "string option"
  jr_created_at :: "datetime option"
  jr_completed_at :: "datetime option"

text \<open>The dataclass constructors: the generated \<^verbatim>\<open>__init__\<close> followed by \<^verbatim>\<open>__post_init__\<close>.\<close>

definition new_Job :: "string \<Rightarrow> status_val \<Rightarrow> datetime option \<Rightarrow> Job" where
  "new_Job i st c = \<lparr>j_id = i, j_status = post_init st, j_created_at = c\<rparr>"

definition new_JobStatusInfo ::
  "string \<Rightarrow> status_val \<Rightarrow> real option \<Rightarrow> string option \<Rightarrow> datetime option
     \<Rightarrow> datetime option \<Rightarrow> JobStatusInfo" where
  "new_JobStatusInfo i st p e c u =
     \<lparr>jsi_job_id = i, jsi_status = post_init st, jsi_progress = p, jsi_error_message = e,
      jsi_created_at = c, jsi_updated_at = u\<rparr>"

definition new_JobResult ::
  "string \<Rightarrow> status_val \<Rightarrow> pydict option \<Rightarrow> pydict list option \<Rightarrow> int option
     \<Rightarrow> real option \<Rightarrow> string option \<Rightarrow> datetime option \<Rightarrow> datetime option \<Rightarrow> JobResult" where
  "new_JobResult i st d pg cr pt e c f =
     \<lparr>jr_job_id = i, jr_status = post_init st, jr_data = d, jr_pages = pg,
      jr_credits_used = cr, jr_processing_time = pt, jr_error_message = e,
      jr_created_at = c, jr_completed_at = f\<rparr>"

section \<open>Result validation (services/ocr.py)\<close>

text \<open>Python truthiness of an optional string, dictionary or list.\<close>

definition truthy :: "'a list option \<Rightarrow> bool" where
  "truthy x = (case x of None \<Rightarrow> False | Some v \<Rightarrow> v \<noteq> [])"

text \<open>\<^verbatim>\<open>OCRService.validate_job_result\<close>: three early returns, then True.\<close>

definition validate_job_result :: "JobResult \<Rightarrow> bool" where
  "validate_job_result job_result =
    (if status_str (jr_status job_result) \<noteq> JobStatus_value COMPLETED then False
     else if truthy (jr_error_message job_result) then False
     else if \<not> truthy (jr_data job_result) \<and> \<not> truthy (jr_pages job_result) then False
     else True)"

section \<open>The client (client.py)\<close>

text \<open>
  What a call can raise: one of the SDK's own errors, or another Python exception, given
  by its class name and its text.
\<close>

datatype exn = LeapOCR leapocr_error | Python string string

text \<open>
  \<^verbatim>\<open>str(e)\<close>: \<^verbatim>\<open>LeapOCRClientError.__str__\<close>, which every subclass inherits, puts the
  base class name before the message.
\<close>

fun exn_str :: "exn \<Rightarrow> string" where
  "exn_str (LeapOCR e) = ''LeapOCRClientError: '' @ message e"
| "exn_str (Python cls msg) = msg"

text \<open>
  Calling an enumeration class: \<^verbatim>\<open>JobStatus(value)\<close> looks a member up by value. The
  call accepts the keywords below and no other; a keyword it does not know, and a call
  without the positional value, are a TypeError before any lookup.
\<close>

definition enum_call_keywords :: "string list" where
  "enum_call_keywords =
     [''value'', ''names'', ''module'', ''qualname'', ''type'', ''start'', ''boundary'']"

definition JobStatus_call :: "string option \<Rightarrow> (string \<times> pyval) list \<Rightarrow> exn + JobStatus" where
  "JobStatus_call positional kwargs =
    (case filter (\<lambda>k. k \<notin> set enum_call_keywords) (map fst kwargs) of
       k # _ \<Rightarrow>
         Inl (Python ''TypeError''
                (''EnumType.__call__() got an unexpected keyword argument ''
                   @ [CHR 0x27] @ k @ [CHR 0x27]))
     | [] \<Rightarrow>
        (case positional of
           None \<Rightarrow>
             Inl (Python ''TypeError''
                    (''EnumType.__call__() missing 1 required positional argument: ''
                     @ [CHR 0x27] @ ''value'' @ [CHR 0x27]))
         | Some v \<Rightarrow>
            (case JobStatus_lookup v of
               None \<Rightarrow> Inl (Python ''ValueError''
                           ([CHR 0x27] @ v @ [CHR 0x27] @ '' is not a valid JobStatus''))
             | Some m \<Rightarrow> Inr m)))"

text \<open>
  A reply of the generated transport to one call: it raises its \<^verbatim>\<open>ApiException\<close>;
  or something else is raised inside the \<^verbatim>\<open>try\<close> before the result is built, by the
  transport or by reading the response (given by its text); or it returns a response
  whose \<^verbatim>\<open>data\<close> is \<open>'a\<close>.
\<close>

datatype 'a reply = ApiExc api_exception | OtherExc string | Response 'a

record status_data =
  sd_job_id :: string
  sd_status :: string
  sd_progress :: "real option"
  sd_error_message :: "string option"
  sd_created_at :: "datetime option"
  sd_updated_at :: "datetime option"

record result_data =
  rd_job_id :: string
  rd_status :: string
  rd_data :: "pydict option"
  rd_pages :: "pydict list option"
  rd_credits_used :: "int option"
  rd_processing_time :: "real option"
  rd_error_message :: "string option"
  rd_created_at :: "datetime option"
  rd_completed_at :: "datetime option"

text \<open>
  What \<^verbatim>\<open>get_job_status\<close> hands to its caller, who reads \<^verbatim>\<open>.status\<close> from it: a
  member of \<^verbatim>\<open>JobStatus\<close> (the annotated return type; a member has no such
  attribute), or an object that has the attribute, as \<^verbatim>\<open>JobStatusInfo\<close> has.
\<close>

datatype status_obj = Member JobStatus | Info JobStatusInfo

fun status_attr :: "status_obj \<Rightarrow> exn + status_val" where
  "status_attr (Member m) =
     Inl (Python ''AttributeError''
            ([CHR 0x27] @ ''JobStatus'' @ [CHR 0x27] @ '' object has no attribute ''
               @ [CHR 0x27] @ ''status'' @ [CHR 0x27]))"
| "status_attr (Info i) = Inr (jsi_status i)"

definition opt_real :: "real option \<Rightarrow> pyval" where
  "opt_real x = (case x of None \<Rightarrow> PNone | Some r \<Rightarrow> PFloat r)"

definition opt_str :: "string option \<Rightarrow> pyval" where
  "opt_str x = (case x of None \<Rightarrow> PNone | Some s \<Rightarrow> PStr s)"

text \<open>
  \<^verbatim>\<open>LeapOCRClient.get_job_status\<close>, given the transport's reply. On a response the
  method calls \<^verbatim>\<open>JobStatus\<close> with six keyword arguments and no positional one; what
  that raises is caught by \<^verbatim>\<open>except Exception\<close> and wrapped.
\<close>

definition get_job_status :: "status_data reply \<Rightarrow> exn + status_obj" where
  "get_job_status r =
    (case r of
       ApiExc e \<Rightarrow> Inl (LeapOCR (handle_api_error e))
     | OtherExc m \<Rightarrow>
         Inl (LeapOCR (mk_error ClientError (''Unexpected error getting job status: '' @ m) None))
     | Response status_data \<Rightarrow>
        (case JobStatus_call None
                [(''job_id'', PStr (sd_job_id status_data)),
                 (''status'', PStr (sd_status status_data)),
                 (''progress'', opt_real (sd_progress status_data)),
                 (''error_message'', opt_str (sd_error_message status_data)),
                 (''created_at'', opt_str (sd_created_at status_data)),
                 (''updated_at'', opt_str (sd_updated_at status_data))] of
           Inl e \<Rightarrow>
             Inl (LeapOCR (mk_error ClientError
                    (''Unexpected error getting job status: '' @ exn_str e) None))
         | Inr m \<Rightarrow> Inr (Member m)))"

text \<open>\<^verbatim>\<open>LeapOCRClient.get_job_result\<close>, given the transport's reply.\<close>

definition get_job_result :: "result_data reply \<Rightarrow> exn + JobResult" where
  "get_job_result r =
    (case r of
       ApiExc e \<Rightarrow> Inl (LeapOCR (handle_api_error e))
     | OtherExc m \<Rightarrow>
         Inl (LeapOCR (mk_error ClientError (''Unexpected error getting job result: '' @ m) None))
     | Response result_data \<Rightarrow>
         Inr (new_JobResult (rd_job_id result_data) (Str (rd_status result_data))
                (rd_data result_data) (rd_pages result_data) (rd_credits_used result_data)
                (rd_processing_time result_data) (rd_error_message result_data)
                (rd_created_at result_data) (rd_completed_at result_data)))"

text \<open>
  The polling loops call \<^verbatim>\<open>self.get_job_status\<close> and \<^verbatim>\<open>self.get_job_result\<close>,
  resolved on the object at run time (the test suite patches both). \<open>self\<close> is the
  record of the two methods; the status method is given the number of the call, since
  the server's reply changes from one call to the next.
\<close>

record client =
  get_job_status_m :: "nat \<Rightarrow> string \<Rightarrow> exn + status_obj"
  get_job_result_m :: "string \<Rightarrow> exn + JobResult"

text \<open>The transport a \<^verbatim>\<open>LeapOCRClient\<close> is built on, and the client as the class defines it.\<close>

record transport =
  status_reply :: "nat \<Rightarrow> string \<Rightarrow> status_data reply"
  result_reply :: "string \<Rightarrow> result_data reply"

definition LeapOCRClient :: "transport \<Rightarrow> client" where
  "LeapOCRClient t =
     \<lparr>get_job_status_m = (\<lambda>k job_id. get_job_status (status_reply t k job_id)),
      get_job_result_m = (\<lambda>job_id. get_job_result (result_reply t job_id))\<rparr>"

text \<open>
  The interpreter and the machine: how long the k-th status call takes, how much longer
  than asked the k-th sleep lasts, and how an f-string prints a number.
\<close>

record runtime =
  query_time :: "nat \<Rightarrow> real"
  sleep_lag :: "nat \<Rightarrow> real"
  str_float :: "real \<Rightarrow> string"

text \<open>What happens, in order, and the state it leaves.\<close>

datatype event =
    StatusQuery string
  | ResultQuery string
  | Sleep real
  | AsyncSleep real

record world =
  clock :: real
  n_status :: nat
  n_sleeps :: nat
  trace :: "event list"

definition do_status_query :: "runtime \<Rightarrow> string \<Rightarrow> world \<Rightarrow> world" where
  "do_status_query rt job_id w =
     w\<lparr>clock := clock w + query_time rt (n_status w),
       n_status := Suc (n_status w),
       trace := trace w @ [StatusQuery job_id]\<rparr>"

definition do_result_query :: "string \<Rightarrow> world \<Rightarrow> world" where
  "do_result_query job_id w = w\<lparr>trace := trace w @ [ResultQuery job_id]\<rparr>"

text \<open>\<^verbatim>\<open>time.sleep\<close> refuses a negative length; otherwise the thread is blocked.\<close>

definition time_sleep :: "runtime \<Rightarrow> real \<Rightarrow> world \<Rightarrow> exn + world" where
  "time_sleep rt secs w =
    (if secs < 0 then Inl (Python ''ValueError'' ''sleep length must be non-negative'')
     else Inr (w\<lparr>clock := clock w + secs + sleep_lag rt (n_sleeps w),
                 n_sleeps := Suc (n_sleeps w),
                 trace := trace w @ [Sleep secs]\<rparr>))"

text \<open>\<^verbatim>\<open>asyncio.sleep\<close> yields once and returns when the delay is zero or negative.\<close>

definition asyncio_sleep :: "runtime \<Rightarrow> real \<Rightarrow> world \<Rightarrow> world" where
  "asyncio_sleep rt delay w =
     w\<lparr>clock := clock w + (if delay \<le> 0 then 0 else delay) + sleep_lag rt (n_sleeps w),
       n_sleeps := Suc (n_sleeps w),
       trace := trace w @ [AsyncSleep delay]\<rparr>"

text \<open>Truthiness of \<^verbatim>\<open>timeout: float | None\<close>: None and zero are false.\<close>

definition timeout_truthy :: "real option \<Rightarrow> bool" where
  "timeout_truthy timeout = (case timeout of None \<Rightarrow> False | Some t \<Rightarrow> t \<noteq> 0)"

definition terminal_statuses :: "string list" where
  "terminal_statuses = [''completed'', ''failed'', ''cancelled'']"

text \<open>
  The error of the deadline check: \<^verbatim>\<open>LeapOCRTimeoutError(f"Job {job_id} did not
  complete within {timeout} seconds")\<close>, built with the message alone.
\<close>

definition timeout_error :: "runtime \<Rightarrow> string \<Rightarrow> real \<Rightarrow> leapocr_error" where
  "timeout_error rt job_id t =
     mk_error TimeoutError
       (''Job '' @ job_id @ '' did not complete within '' @ str_float rt t @ '' seconds'')
       None"

text \<open>
  The body of \<^verbatim>\<open>while True\<close> in \<^verbatim>\<open>wait_for_result\<close>, from the state at the head of
  the loop. \<open>None\<close> is a loop that never ends. The clock is read after the status
  query; \<^verbatim>\<open>timeout and ...\<close> reads the timeout only when it is truthy.
\<close>

partial_function (option) wait_loop ::
  "client \<Rightarrow> runtime \<Rightarrow> string \<Rightarrow> real option \<Rightarrow> real \<Rightarrow> real \<Rightarrow> world
     \<Rightarrow> ((exn + JobResult) \<times> world) option" where
  "wait_loop self rt job_id timeout poll_interval start_time w =
    (let w1 = do_status_query rt job_id w in
     case get_job_status_m self (n_status w) job_id of
       Inl e \<Rightarrow> Some (Inl e, w1)
     | Inr status \<Rightarrow>
        (case status_attr status of
           Inl e \<Rightarrow> Some (Inl e, w1)
         | Inr st \<Rightarrow>
            if status_str st \<in> set terminal_statuses then
              Some (get_job_result_m self job_id, do_result_query job_id w1)
            else if timeout_truthy timeout \<and> clock w1 - start_time > the timeout then
              Some (Inl (LeapOCR (timeout_error rt job_id (the timeout))), w1)
            else
              (case time_sleep rt poll_interval w1 of
                 Inl e \<Rightarrow> Some (Inl e, w1)
               | Inr w2 \<Rightarrow> wait_loop self rt job_id timeout poll_interval start_time w2)))"

definition wait_for_result ::
  "client \<Rightarrow> runtime \<Rightarrow> string \<Rightarrow> real option \<Rightarrow> real \<Rightarrow> world
     \<Rightarrow> ((exn + JobResult) \<times> world) option" where
  "wait_for_result self rt job_id timeout poll_interval w =
     wait_loop self rt job_id timeout poll_interval (clock w) w"

text \<open>The same for \<^verbatim>\<open>wait_for_result_async\<close>, which sleeps with \<^verbatim>\<open>asyncio.sleep\<close>.\<close>

partial_function (option) wait_loop_async ::
  "client \<Rightarrow> runtime \<Rightarrow> string \<Rightarrow> real option \<Rightarrow> real \<Rightarrow> real \<Rightarrow> world
     \<Rightarrow> ((exn + JobResult) \<times> world) option" where
  "wait_loop_async self rt job_id timeout poll_interval start_time w =
    (let w1 = do_status_query rt job_id w in
     case get_job_status_m self (n_status w) job_id of
       Inl e \<Rightarrow> Some (Inl e, w1)
     | Inr status \<Rightarrow>
        (case status_attr status of
           Inl e \<Rightarrow> Some (Inl e, w1)
         | Inr st \<Rightarrow>
            if status_str st \<in> set terminal_statuses then
              Some (get_job_result_m self job_id, do_result_query job_id w1)
            else if timeout_truthy timeout \<and> clock w1 - start_time > the timeout then
              Some (Inl (LeapOCR (timeout_error rt job_id (the timeout))), w1)
            else
              wait_loop_async self rt job_id timeout poll_interval start_time
                (asyncio_sleep rt poll_interval w1)))"

definition wait_for_result_async ::
  "client \<Rightarrow> runtime \<Rightarrow> string \<Rightarrow> real option \<Rightarrow> real \<Rightarrow> world
     \<Rightarrow> ((exn + JobResult) \<times> world) option" where
  "wait_for_result_async self rt job_id timeout poll_interval w =
     wait_loop_async self rt job_id timeout poll_interval (clock w) w"



section \<open>The OCR service (services/ocr.py)\<close>




record FileUploadResult =
  fu_job_id :: string
  fu_upload_url :: string
  fu_status :: string

























section \<open>Fixtures of the test suite (tests/test_client.py)\<close>

text \<open>
  \<^verbatim>\<open>Mock(status=...)\<close>, the patched \<^verbatim>\<open>get_job_status\<close> and \<^verbatim>\<open>get_job_result\<close> of
  \<^verbatim>\<open>test_wait_for_result_success\<close> (the status is processing for the first \<open>n\<close>
  calls, then completed) and of \<^verbatim>\<open>test_wait_for_result_timeout\<close> (processing for
  ever), a machine on which calls take no time, and the state before the call.
\<close>

definition mock_status :: "string \<Rightarrow> status_obj" where
  "mock_status s =
     Info \<lparr>jsi_job_id = ''test_job_id'', jsi_status = Str s, jsi_progress = Some 50,
           jsi_error_message = None, jsi_created_at = None, jsi_updated_at = None\<rparr>"

definition mock_result :: JobResult where
  "mock_result =
     new_JobResult ''test_job_id'' (Str ''completed'') (Some [(''result'', PStr ''success'')])
       None None None None None None"

definition mock_client :: "nat \<Rightarrow> client" where
  "mock_client n =
     \<lparr>get_job_status_m =
        (\<lambda>k job_id. Inr (mock_status (if k < n then ''processing'' else ''completed''))),
      get_job_result_m = (\<lambda>job_id. Inr mock_result)\<rparr>"


definition test_runtime :: runtime where
  "test_runtime =
     \<lparr>query_time = (\<lambda>k. 0), sleep_lag = (\<lambda>k. 0),
      str_float = (\<lambda>t. if t = 1 / 2 then ''0.5'' else ''?'')\<rparr>"

definition world0 :: world where
  "world0 = \<lparr>clock = 0, n_status = 0, n_sleeps = 0, trace = []\<rparr>"






section \<open>Properties\<close>

subsection \<open>C2: the status-code mapping and retryability\<close>

text \<open>
  C2. The class of the error that \<^verbatim>\<open>_handle_api_error\<close> raises, and of the one
  that \<^verbatim>\<open>map_exception\<close> returns, is a function of the status code alone: 401 and 403
  give AuthenticationError, 404 NotFoundError, 422 ValidationError, 429 RateLimitError,
  500 to 599 ServerError, any other code and an absent code the generic ClientError.
  \<^verbatim>\<open>is_retryable\<close> is true exactly for ServerError, RateLimitError, TimeoutError and
  UploadError.
\<close>

theorem status_code_mapping_total:
  "kind (handle_api_error e) =
     (if exc_status e = Some 401 \<or> exc_status e = Some 403 then AuthenticationError
      else if exc_status e = Some 404 then NotFoundError
      else if exc_status e = Some 422 then ValidationError
      else if exc_status e = Some 429 then RateLimitError
      else if exc_status e \<in> Some ` {500..599} then ServerError
      else ClientError)
   \<and> kind (map_exception e) = kind (handle_api_error e)
   \<and> is_retryable k = (k \<in> {ServerError, RateLimitError, TimeoutError, UploadError})"
proof -
  have a: "kind (handle_api_error e) =
     (if exc_status e = Some 401 \<or> exc_status e = Some 403 then AuthenticationError
      else if exc_status e = Some 404 then NotFoundError
      else if exc_status e = Some 422 then ValidationError
      else if exc_status e = Some 429 then RateLimitError
      else if exc_status e \<in> Some ` {500..599} then ServerError
      else ClientError)"
    by (cases "exc_status e") (auto simp: handle_api_error_def mk_error_def Let_def)
  have b: "kind (map_exception e) = kind (handle_api_error e)"
    by (cases "exc_status e") (auto simp: handle_api_error_def map_exception_def mk_error_def Let_def)
  have c: "is_retryable k = (k \<in> {ServerError, RateLimitError, TimeoutError, UploadError})"
    by (cases k) simp_all
  from a b c show ?thesis by blast
qed

subsection \<open>Helper facts about the status enumeration\<close>

lemma lower_JobStatus_value: "lower (JobStatus_value e) = JobStatus_value e"
  by (cases e) (simp_all add: lower_def lower_char_def)

lemma JobStatus_lookup_value: "JobStatus_lookup (JobStatus_value e) = Some e"
  by (cases e) (simp_all add: JobStatus_lookup_def)

lemma post_init_Enum: "post_init (Enum e) = Enum e"
  by (simp add: post_init_def lower_JobStatus_value JobStatus_lookup_value)

lemma post_init_Str:
  "post_init (Str s) =
     (if lower s = ''pending'' then Enum PENDING
      else if lower s = ''processing'' then Enum PROCESSING
      else if lower s = ''completed'' then Enum COMPLETED
      else if lower s = ''failed'' then Enum FAILED
      else if lower s = ''cancelled'' then Enum CANCELLED
      else Str s)"
  by (simp add: post_init_def JobStatus_lookup_def)

subsection \<open>C7: validate_job_result\<close>

text \<open>
  C7, as the code has it. \<^verbatim>\<open>validate_job_result\<close> returns true if and only if the
  status is completed, the error message is absent or the empty string (the code tests
  its truthiness), and at least one of data and pages is present and not empty. It is
  true for a completed result with data \<^verbatim>\<open>{"x": 1}\<close>, false for a processing result
  with data, for a completed result with the error message \<^verbatim>\<open>"boom"\<close>, and for a
  completed result with neither data nor pages.
\<close>

theorem validate_job_result_iff:
  "validate_job_result r =
     (status_str (jr_status r) = ''completed''
      \<and> (jr_error_message r = None \<or> jr_error_message r = Some [])
      \<and> (truthy (jr_data r) \<or> truthy (jr_pages r)))
   \<and> validate_job_result
        (new_JobResult ''job'' (Enum COMPLETED) (Some [(''x'', PInt 1)]) None None None None
           None None)
   \<and> \<not> validate_job_result
        (new_JobResult ''job'' (Enum PROCESSING) (Some [(''x'', PInt 1)]) None None None None
           None None)
   \<and> \<not> validate_job_result
        (new_JobResult ''job'' (Enum COMPLETED) None None None None (Some ''boom'') None None)
   \<and> \<not> validate_job_result
        (new_JobResult ''job'' (Enum COMPLETED) None None None None None None None)"
proof -
  have general: "validate_job_result r =
     (status_str (jr_status r) = ''completed''
      \<and> (jr_error_message r = None \<or> jr_error_message r = Some [])
      \<and> (truthy (jr_data r) \<or> truthy (jr_pages r)))"
    by (auto simp: validate_job_result_def truthy_def split: option.splits)
  have examples:
    "validate_job_result
        (new_JobResult ''job'' (Enum COMPLETED) (Some [(''x'', PInt 1)]) None None None None
           None None)"
    "\<not> validate_job_result
        (new_JobResult ''job'' (Enum PROCESSING) (Some [(''x'', PInt 1)]) None None None None
           None None)"
    "\<not> validate_job_result
        (new_JobResult ''job'' (Enum COMPLETED) None None None None (Some ''boom'') None None)"
    "\<not> validate_job_result
        (new_JobResult ''job'' (Enum COMPLETED) None None None None None None None)"
    by (simp_all add: validate_job_result_def new_JobResult_def post_init_Enum truthy_def)
  from general examples show ?thesis by blast
qed

text \<open>
  The claim as written fails where the error message is present but empty: the result
  below is completed and carries data, its error message is the empty string (so it is
  not absent), and the code accepts it.
\<close>

theorem validate_job_result_empty_message_counterexample:
  "jr_error_message
     (new_JobResult ''job'' (Str ''completed'') (Some [(''x'', PInt 1)]) None None None
        (Some []) None None) \<noteq> None
   \<and> validate_job_result
     (new_JobResult ''job'' (Str ''completed'') (Some [(''x'', PInt 1)]) None None None
        (Some []) None None)"
  by (simp add: validate_job_result_def new_JobResult_def post_init_Str lower_def
      lower_char_def truthy_def)

subsection \<open>C8: status strings at construction\<close>

text \<open>
  C8, as the code has it. Constructing a Job, a JobStatusInfo or a JobResult with the
  status string \<open>s\<close> never raises. The status field becomes the member of the
  enumeration that \<open>s\<close> names once \<open>s\<close> is lower-cased, whatever the case of its letters;
  when the lower-cased \<open>s\<close> names no member, the field is \<open>s\<close> itself, unchanged.
\<close>

theorem status_string_coercion:
  "j_status (new_Job i (Str s) c) = post_init (Str s)
   \<and> jsi_status (new_JobStatusInfo i (Str s) p e c u) = post_init (Str s)
   \<and> jr_status (new_JobResult i (Str s) d pg cr pt e c f) = post_init (Str s)
   \<and> post_init (Str s) =
       (if lower s = ''pending'' then Enum PENDING
        else if lower s = ''processing'' then Enum PROCESSING
        else if lower s = ''completed'' then Enum COMPLETED
        else if lower s = ''failed'' then Enum FAILED
        else if lower s = ''cancelled'' then Enum CANCELLED
        else Str s)
   \<and> post_init (Str (JobStatus_value m)) = Enum m"
proof -
  have "post_init (Str (JobStatus_value m)) = Enum m"
    by (simp add: post_init_def lower_JobStatus_value JobStatus_lookup_value)
  then show ?thesis
    using post_init_Str [of s]
    by (simp add: new_Job_def new_JobStatusInfo_def new_JobResult_def)
qed

text \<open>
  The claim as written fails at a status that names a member only up to case: the
  string \<^verbatim>\<open>"COMPLETED"\<close> is none of the five values, yet it is not kept verbatim.
\<close>

theorem status_string_verbatim_counterexample:
  "JobStatus_lookup ''COMPLETED'' = None
   \<and> j_status (new_Job ''job'' (Str ''COMPLETED'') None) = Enum COMPLETED
   \<and> j_status (new_Job ''job'' (Str ''COMPLETED'') None) \<noteq> Str ''COMPLETED''
   \<and> jsi_status (new_JobStatusInfo ''job'' (Str ''COMPLETED'') None None None None)
       \<noteq> Str ''COMPLETED''
   \<and> jr_status (new_JobResult ''job'' (Str ''COMPLETED'') None None None None None None None)
       \<noteq> Str ''COMPLETED''"
  by (simp add: new_Job_def new_JobStatusInfo_def new_JobResult_def post_init_Str
      JobStatus_lookup_def lower_def lower_char_def)

subsection \<open>The polling loops, one iteration at a time\<close>

lemma wait_loop_status_error:
  "get_job_status_m self (n_status w) j = Inl e \<Longrightarrow>
   wait_loop self rt j t p s w = Some (Inl e, do_status_query rt j w)"
  by (subst wait_loop.simps) (simp add: Let_def)


lemma wait_loop_terminal:
  "get_job_status_m self (n_status w) j = Inr status \<Longrightarrow> status_attr status = Inr st \<Longrightarrow>
   status_str st \<in> set terminal_statuses \<Longrightarrow>
   wait_loop self rt j t p s w =
     Some (get_job_result_m self j, do_result_query j (do_status_query rt j w))"
  by (subst wait_loop.simps) (simp add: Let_def)





lemma wait_loop_async_status_error:
  "get_job_status_m self (n_status w) j = Inl e \<Longrightarrow>
   wait_loop_async self rt j t p s w = Some (Inl e, do_status_query rt j w)"
  by (subst wait_loop_async.simps) (simp add: Let_def)


lemma wait_loop_async_terminal:
  "get_job_status_m self (n_status w) j = Inr status \<Longrightarrow> status_attr status = Inr st \<Longrightarrow>
   status_str st \<in> set terminal_statuses \<Longrightarrow>
   wait_loop_async self rt j t p s w =
     Some (get_job_result_m self j, do_result_query j (do_status_query rt j w))"
  by (subst wait_loop_async.simps) (simp add: Let_def)





















lemma trace_query: "trace (do_status_query rt j w) = trace w @ [StatusQuery j]"
  by (simp add: do_status_query_def)



subsection \<open>C1: get_job_status never returns a status\<close>

text \<open>
  C1. Whatever the transport replies, \<^verbatim>\<open>get_job_status\<close> raises an error of the SDK
  (an instance of \<^verbatim>\<open>LeapOCRClientError\<close>) and returns nothing. On a well-formed
  response the error is the generic client error that wraps the TypeError of calling
  the enumeration with the keyword \<^verbatim>\<open>job_id\<close>. So \<^verbatim>\<open>wait_for_result\<close> and
  \<^verbatim>\<open>wait_for_result_async\<close> of a \<^verbatim>\<open>LeapOCRClient\<close> raise that error after their first
  status query, without sleeping and without asking for the result.
\<close>

theorem get_job_status_always_raises:
  "(\<exists>e. get_job_status r = Inl (LeapOCR e))
   \<and> get_job_status (Response sd) =
       Inl (LeapOCR (mk_error ClientError
         (''Unexpected error getting job status: ''
            @ ''EnumType.__call__() got an unexpected keyword argument ''
            @ [CHR 0x27] @ ''job_id'' @ [CHR 0x27]) None))
   \<and> (\<exists>e. get_job_status (status_reply tr (n_status w) j) = Inl (LeapOCR e)
          \<and> wait_for_result (LeapOCRClient tr) rt j t p w
              = Some (Inl (LeapOCR e), do_status_query rt j w)
          \<and> wait_for_result_async (LeapOCRClient tr) rt j t p w
              = Some (Inl (LeapOCR e), do_status_query rt j w))
   \<and> trace (do_status_query rt j w) = trace w @ [StatusQuery j]"
proof -
  have resp: "get_job_status (Response sd) =
       Inl (LeapOCR (mk_error ClientError
         (''Unexpected error getting job status: ''
            @ ''EnumType.__call__() got an unexpected keyword argument ''
            @ [CHR 0x27] @ ''job_id'' @ [CHR 0x27]) None))" for sd
    by (simp add: get_job_status_def JobStatus_call_def enum_call_keywords_def)
  have all: "\<exists>e. get_job_status r = Inl (LeapOCR e)" for r
    by (cases r) (simp_all add: resp, simp_all add: get_job_status_def)
  from all obtain e where e: "get_job_status (status_reply tr (n_status w) j) = Inl (LeapOCR e)"
    by blast
  then have m: "get_job_status_m (LeapOCRClient tr) (n_status w) j = Inl (LeapOCR e)"
    by (simp add: LeapOCRClient_def)
  have s: "wait_for_result (LeapOCRClient tr) rt j t p w
             = Some (Inl (LeapOCR e), do_status_query rt j w)"
    unfolding wait_for_result_def by (rule wait_loop_status_error[OF m])
  have a: "wait_for_result_async (LeapOCRClient tr) rt j t p w
             = Some (Inl (LeapOCR e), do_status_query rt j w)"
    unfolding wait_for_result_async_def by (rule wait_loop_async_status_error[OF m])
  from resp all e s a show ?thesis by (simp add: trace_query)
qed

subsection \<open>C3: a terminal status ends the polling\<close>

text \<open>
  C3. Take the polling loop of \<^verbatim>\<open>wait_for_result\<close>, or of \<^verbatim>\<open>wait_for_result_async\<close>,
  at the head of any iteration: any state \<open>w\<close>, any start time \<open>s\<close>, any timeout. If the
  status query of this iteration returns completed, failed or cancelled, the call
  returns what \<^verbatim>\<open>get_job_result\<close> gives for the job; after that status query the only
  further call is the result query: no other status query, no sleep.
\<close>

theorem terminal_status_halts_polling:
  assumes "get_job_status_m self (n_status w) j = Inr (Info i)"
    and "status_str (jsi_status i) \<in> {''completed'', ''failed'', ''cancelled''}"
  shows "wait_loop self rt j t p s w
           = Some (get_job_result_m self j, do_result_query j (do_status_query rt j w))
       \<and> wait_loop_async self rt j t p s w
           = Some (get_job_result_m self j, do_result_query j (do_status_query rt j w))
       \<and> trace (do_result_query j (do_status_query rt j w))
           = trace w @ [StatusQuery j, ResultQuery j]
       \<and> n_status (do_result_query j (do_status_query rt j w)) = Suc (n_status w)
       \<and> n_sleeps (do_result_query j (do_status_query rt j w)) = n_sleeps w"
proof -
  have a: "status_attr (Info i) = Inr (jsi_status i)" by simp
  have b: "status_str (jsi_status i) \<in> set terminal_statuses"
    using assms(2) by (simp add: terminal_statuses_def)
  show ?thesis
    using wait_loop_terminal[OF assms(1) a b] wait_loop_async_terminal[OF assms(1) a b]
    by (simp add: do_result_query_def do_status_query_def)
qed

theorem terminal_status_halts_polling_witness:
  "wait_loop (mock_client 0) test_runtime ''test_job_id'' (Some 10) (1 / 10) 0 world0
     = Some (Inr mock_result,
             do_result_query ''test_job_id'' (do_status_query test_runtime ''test_job_id'' world0))
   \<and> trace (do_result_query ''test_job_id'' (do_status_query test_runtime ''test_job_id'' world0))
     = [StatusQuery ''test_job_id'', ResultQuery ''test_job_id'']"
proof -
  have a: "get_job_status_m (mock_client 0) (n_status world0) ''test_job_id''
             = Inr (Info \<lparr>jsi_job_id = ''test_job_id'', jsi_status = Str ''completed'',
                  jsi_progress = Some 50, jsi_error_message = None, jsi_created_at = None,
                  jsi_updated_at = None\<rparr>)"
    by (simp add: mock_client_def mock_status_def)
  show ?thesis
    using terminal_status_halts_polling[OF a, of test_runtime "Some 10" "1 / 10" 0]
    by (simp add: mock_client_def world0_def)
qed

subsection \<open>C4: the deadline\<close>



subsection \<open>C9: the blocking and the cooperative loop\<close>




subsection \<open>C10: a timeout of zero\<close>



subsection \<open>The batch methods\<close>


























subsection \<open>C5: a failing item of the cooperative batch\<close>




subsection \<open>C6: positions and groups of a batch\<close>




end
